theory Spec2Isabelle
  imports Main "HOL-Library.Word"
begin

section \<open>Values shared by the block driver and the two servers\<close>

text \<open>
  A Go \<open>error\<close> is a value compared by identity (\<open>switch err\<close> in \<open>attachVol\<close>) and
  rendered by \<open>err.Error()\<close>. The three sentinels are variables of package \<open>volume\<close>;
  \<open>Errorf\<close> carries the formatted message of a \<open>fmt.Errorf\<close> call; \<open>Errno\<close> is an error
  handed back by the operating system, the NBD layer, the key-value store or the JSON
  decoder.
\<close>

datatype error =
    ErrNotSupported
  | ErrVolAttachedOnRemoteNode
  | ErrVolAttachedScale
  | Errorf string
  | Errno string

text \<open>
  Modelled from the spec: the message texts of the three sentinels are declared in
  package \<open>volume\<close>, which is not among the sources; the names the spec gives the
  conditions stand for them.
\<close>

fun Error :: "error \<Rightarrow> string" where
  "Error ErrNotSupported = ''NotSupported''"
| "Error ErrVolAttachedOnRemoteNode = ''AlreadyAttachedRemote''"
| "Error ErrVolAttachedScale = ''AttachedAtScaleLimit''"
| "Error (Errorf msg) = msg"
| "Error (Errno msg) = msg"

text \<open>A call either returns or panics (index out of range, nil dereference).\<close>

datatype 'a go = Panics | Returns 'a

text \<open>
  The enums of package \<open>api\<close> are declared outside the sources. Of \<open>FSType\<close> only the
  comparison with \<open>FS_TYPE_NONE\<close> and the rendering \<open>SimpleString\<close> are used; every
  other value is represented by its rendering. Of \<open>DriverType\<close> only the comparison
  with \<open>DRIVER_TYPE_BLOCK\<close> is used.
\<close>

datatype FSType = FS_TYPE_NONE | FS_TYPE string

fun SimpleString :: "FSType \<Rightarrow> string" where
  "SimpleString FS_TYPE_NONE = ''none''"
| "SimpleString (FS_TYPE s) = s"

datatype DriverType = DRIVER_TYPE_NONE | DRIVER_TYPE_FILE | DRIVER_TYPE_BLOCK

datatype VolumeStatus = VOLUME_STATUS_NONE | VOLUME_STATUS_UP

text \<open>
  \<open>api.Volume\<close> and the structs it points to. \<open>Size\<close> is a \<open>uint64\<close>, \<open>Scale\<close> a
  \<open>uint32\<close>. \<open>Locator\<close> and \<open>Spec\<close> are pointers in Go that the code below dereferences
  without a test (\<open>vol.Locator.Name\<close>, \<open>vol.Spec.Scale\<close>, \<open>spec.Size\<close>); the records
  hold the structs themselves. \<open>Source\<close> is a pointer that is passed as \<open>nil\<close>, hence an
  option. \<open>AttachPath\<close> is a slice: \<open>None\<close> is the \<open>nil\<close> slice and \<open>Some xs\<close> a
  non-nil slice with the elements \<open>xs\<close>; both \<open>None\<close> and \<open>Some []\<close> have length 0.
\<close>

record api_VolumeLocator =
  Name :: string
  VolumeLabels :: "(string \<times> string) list"

record api_Source =
  Parent :: string

record api_VolumeSpec =
  Size :: "64 word"
  Format :: FSType
  Scale :: "32 word"

record api_Volume =
  Id' :: string
  Locator :: api_VolumeLocator
  Source :: "api_Source option"
  Spec :: api_VolumeSpec
  Status :: VolumeStatus
  DevicePath :: string
  AttachPath :: "string list option"

fun len :: "'a list option \<Rightarrow> nat" where
  "len None = 0"
| "len (Some xs) = length xs"

subsection \<open>Library functions of Go used by the sources\<close>

text \<open>\<open>strings.TrimSuffix\<close>.\<close>

definition TrimSuffix :: "string \<Rightarrow> string \<Rightarrow> string" where
  "TrimSuffix s suffix =
     (if length suffix \<le> length s \<and> drop (length s - length suffix) s = suffix
      then take (length s - length suffix) s else s)"

text \<open>
  \<open>path.Join\<close>: the non-empty prefix of empty elements is dropped, the rest is joined
  with slashes and cleaned by \<open>path.Clean\<close> (empty and \<open>.\<close> elements go, \<open>..\<close> removes
  the element before it, a rooted path cannot climb above the root, the empty result
  is \<open>.\<close>).
\<close>

fun split_path :: "string \<Rightarrow> string list" where
  "split_path [] = [[]]"
| "split_path (c # cs) =
     (if c = CHR ''/'' then [] # split_path cs
      else (case split_path cs of [] \<Rightarrow> [[c]] | x # xs \<Rightarrow> (c # x) # xs))"

fun join_path :: "string list \<Rightarrow> string" where
  "join_path [] = []"
| "join_path [e] = e"
| "join_path (e # es) = e @ ''/'' @ join_path es"

definition clean_step :: "bool \<Rightarrow> string \<Rightarrow> string list \<Rightarrow> string list" where
  "clean_step rooted e stack =
     (if e = ''..'' then
        (case stack of
           [] \<Rightarrow> (if rooted then [] else [e])
         | t # rest \<Rightarrow> (if t = ''..'' then e # stack else rest))
      else e # stack)"

definition path_Clean :: "string \<Rightarrow> string" where
  "path_Clean p =
     (if p = [] then ''.''
      else
        (let rooted = (hd p = CHR ''/'');
             elems = filter (\<lambda>e. e \<noteq> [] \<and> e \<noteq> ''.'') (split_path p);
             out = rev (fold (clean_step rooted) elems [])
         in if rooted then ''/'' @ join_path out
            else if out = [] then ''.'' else join_path out))"

definition path_Join :: "string list \<Rightarrow> string" where
  "path_Join elem =
     (let es = dropWhile (\<lambda>e. e = []) elem
      in if es = [] then [] else path_Clean (join_path es))"

text \<open>
  \<open>%q\<close> of a string: double quotes around it, with the quote and the backslash
  escaped (the escapes of non-printable characters are not written out).
\<close>

fun escape_q :: "string \<Rightarrow> string" where
  "escape_q [] = []"
| "escape_q (c # cs) =
     (if c = CHR 0x22 \<or> c = CHR 0x5C then CHR 0x5C # c # escape_q cs else c # escape_q cs)"

definition Quote :: "string \<Rightarrow> string" where
  "Quote s = CHR 0x22 # escape_q s @ [CHR 0x22]"

section \<open>The BUSE block driver (package buse)\<close>

subsection \<open>The world the driver acts on\<close>

text \<open>
  A backing file has a content and permission bits. \<open>buseDev\<close> is the Device Registry's
  entry: the backing file's path, the open handle \<open>f\<close> (named by the path it was
  opened on) and the NBD connection (named by the device node it serves).
\<close>

record node =
  content :: "8 word list"
  perm :: "32 word"

record buseDev =
  bd_file :: string
  bd_f :: string
  bd_nbd :: string

text \<open>
  The state a driver call can read or change: the files on disk, the open file
  handles, the connected NBD devices, the kernel's mount table (device, target,
  filesystem type), the records of the external metadata store, and the driver's own
  \<open>buseDevices\<close> map.
\<close>

record world =
  files :: "string \<rightharpoonup> node"
  handles :: "string list"
  nbds :: "string list"
  mounts :: "(string \<times> string \<times> string) list"
  store :: "string \<rightharpoonup> api_Volume"
  buseDevices :: "string \<rightharpoonup> buseDev"

text \<open>
  What the driver does not decide: the identifier \<open>uuid.New\<close> returns, whether a
  system call, the NBD connection, the formatting tool or a store write fails, the
  permission bits a new file gets, and the image the formatting tool writes. Each
  answer may depend on the world at the time of the call.
\<close>

record env =
  uuid_New :: "world \<Rightarrow> string"
  os_Open_err :: "world \<Rightarrow> string \<Rightarrow> error option"
  os_Create_err :: "world \<Rightarrow> string \<Rightarrow> error option"
  os_Create_perm :: "32 word"
  Truncate_err :: "world \<Rightarrow> string \<Rightarrow> error option"
  io_Copy_err :: "world \<Rightarrow> string \<Rightarrow> string \<Rightarrow> (error \<times> nat) option"
  os_Stat_err :: "world \<Rightarrow> string \<Rightarrow> error option"
  os_Remove_err :: "world \<Rightarrow> string \<Rightarrow> error option"
  nbd_Connect_res :: "world \<Rightarrow> string \<Rightarrow> error + string"
  mkfs_res :: "world \<Rightarrow> string \<Rightarrow> string \<Rightarrow> error + 8 word list"
  syscall_Mount_err :: "world \<Rightarrow> string \<Rightarrow> string \<Rightarrow> string \<Rightarrow> error option"
  syscall_Unmount_err :: "world \<Rightarrow> string \<Rightarrow> error option"
  kvdb_err :: "world \<Rightarrow> string \<Rightarrow> error option"

subsection \<open>Operating system, NBD and formatting tool\<close>

definition os_Open :: "env \<Rightarrow> string \<Rightarrow> world \<Rightarrow> error option \<times> world" where
  "os_Open e p w =
     (case files w p of
        None \<Rightarrow> (Some (Errno ''ENOENT''), w)
      | Some n \<Rightarrow>
          (case os_Open_err e w p of
             Some err \<Rightarrow> (Some err, w)
           | None \<Rightarrow> (None, w\<lparr>handles := p # handles w\<rparr>)))"

text \<open>\<open>os.Create\<close> creates the file or truncates the one that is there, keeping its mode.\<close>

definition os_Create :: "env \<Rightarrow> string \<Rightarrow> world \<Rightarrow> error option \<times> world" where
  "os_Create e p w =
     (case os_Create_err e w p of
        Some err \<Rightarrow> (Some err, w)
      | None \<Rightarrow>
          (None, w\<lparr>files := (files w)(p \<mapsto>
                       (case files w p of
                          None \<Rightarrow> \<lparr>content = [], perm = os_Create_perm e\<rparr>
                        | Some n \<Rightarrow> n\<lparr>content := []\<rparr>)),
                    handles := p # handles w\<rparr>))"

definition Close :: "string \<Rightarrow> world \<Rightarrow> world" where
  "Close p w = w\<lparr>handles := remove1 p (handles w)\<rparr>"

text \<open>\<open>f.Truncate(size)\<close>: a negative size is refused; the file is cut or zero-filled.\<close>

definition Truncate :: "env \<Rightarrow> string \<Rightarrow> int \<Rightarrow> world \<Rightarrow> error option \<times> world" where
  "Truncate e p n w =
     (if n < 0 then (Some (Errno ''EINVAL''), w)
      else
        (case Truncate_err e w p of
           Some err \<Rightarrow> (Some err, w)
         | None \<Rightarrow>
             (case files w p of
                None \<Rightarrow> (None, w)
              | Some f \<Rightarrow>
                  (None, w\<lparr>files := (files w)(p \<mapsto>
                     f\<lparr>content := take (nat n) (content f) @
                                   replicate (nat n - length (content f)) 0\<rparr>)\<rparr>))))"

text \<open>
  \<open>io.Copy(dst, src)\<close>: without an error every byte of the source is written to the
  destination; with an error some prefix was.
\<close>

definition io_Copy :: "env \<Rightarrow> string \<Rightarrow> string \<Rightarrow> world \<Rightarrow> error option \<times> world" where
  "io_Copy e dst src w =
     (let bytes = (case files w src of None \<Rightarrow> [] | Some f \<Rightarrow> content f);
          put = (\<lambda>bs. (case files w dst of
                          None \<Rightarrow> w
                        | Some f \<Rightarrow> w\<lparr>files := (files w)(dst \<mapsto> f\<lparr>content := bs\<rparr>)\<rparr>))
      in case io_Copy_err e w dst src of
           Some (err, written) \<Rightarrow> (Some err, put (take written bytes))
         | None \<Rightarrow> (None, put bytes))"

definition os_Stat :: "env \<Rightarrow> string \<Rightarrow> world \<Rightarrow> error + 32 word" where
  "os_Stat e p w =
     (case files w p of
        None \<Rightarrow> Inl (Errno ''ENOENT'')
      | Some f \<Rightarrow> (case os_Stat_err e w p of Some err \<Rightarrow> Inl err | None \<Rightarrow> Inr (perm f)))"

definition os_Remove :: "env \<Rightarrow> string \<Rightarrow> world \<Rightarrow> error option \<times> world" where
  "os_Remove e p w =
     (case files w p of
        None \<Rightarrow> (Some (Errno ''ENOENT''), w)
      | Some f \<Rightarrow>
          (case os_Remove_err e w p of
             Some err \<Rightarrow> (Some err, w)
           | None \<Rightarrow> (None, w\<lparr>files := (files w)(p := None)\<rparr>)))"

text \<open>\<open>Create(bd, size)\<close> followed by \<open>Connect()\<close> of the NBD layer, and \<open>Disconnect()\<close>.\<close>

definition nbd_Connect :: "env \<Rightarrow> string \<Rightarrow> world \<Rightarrow> (error + string) \<times> world" where
  "nbd_Connect e p w =
     (case nbd_Connect_res e w p of
        Inl err \<Rightarrow> (Inl err, w)
      | Inr dev \<Rightarrow> (Inr dev, w\<lparr>nbds := dev # nbds w\<rparr>))"

definition nbd_Disconnect :: "string \<Rightarrow> world \<Rightarrow> world" where
  "nbd_Disconnect dev w = w\<lparr>nbds := remove1 dev (nbds w)\<rparr>"

text \<open>
  \<open>exec.Command(cmd, dev).Output()\<close>: the tool writes a filesystem image through the
  device into the backing file.
\<close>

definition mkfs :: "env \<Rightarrow> string \<Rightarrow> string \<Rightarrow> string \<Rightarrow> world \<Rightarrow> error option \<times> world" where
  "mkfs e cmd dev p w =
     (case mkfs_res e w cmd dev of
        Inl err \<Rightarrow> (Some err, w)
      | Inr img \<Rightarrow>
          (case files w p of
             None \<Rightarrow> (None, w)
           | Some f \<Rightarrow> (None, w\<lparr>files := (files w)(p \<mapsto> f\<lparr>content := img\<rparr>)\<rparr>)))"

definition syscall_Mount ::
  "env \<Rightarrow> string \<Rightarrow> string \<Rightarrow> string \<Rightarrow> world \<Rightarrow> error option \<times> world" where
  "syscall_Mount e src target fstype w =
     (case syscall_Mount_err e w src target fstype of
        Some err \<Rightarrow> (Some err, w)
      | None \<Rightarrow> (None, w\<lparr>mounts := (src, target, fstype) # mounts w\<rparr>))"

fun unmount_at :: "string \<Rightarrow> (string \<times> string \<times> string) list \<Rightarrow> (string \<times> string \<times> string) list" where
  "unmount_at target [] = []"
| "unmount_at target ((src, t, fstype) # ms) =
     (if t = target then ms else (src, t, fstype) # unmount_at target ms)"

definition syscall_Unmount :: "env \<Rightarrow> string \<Rightarrow> world \<Rightarrow> error option \<times> world" where
  "syscall_Unmount e target w =
     (case syscall_Unmount_err e w target of
        Some err \<Rightarrow> (Some err, w)
      | None \<Rightarrow> (None, w\<lparr>mounts := unmount_at target (mounts w)\<rparr>))"

subsection \<open>The external metadata store\<close>

text \<open>
  Modelled from the spec: the store enumerator (\<open>GetVol\<close>, \<open>CreateVol\<close>, \<open>UpdateVol\<close>,
  \<open>DeleteVol\<close>, \<open>Inspect\<close>) is an external collaborator whose code is not among the
  sources. It is the catalogue of volume records keyed by volume ID: a record that is
  absent is not found, a record is created under a fresh key only, and any write can
  fail.
\<close>

definition GetVol :: "string \<Rightarrow> world \<Rightarrow> error + api_Volume" where
  "GetVol volumeID w =
     (case store w volumeID of None \<Rightarrow> Inl (Errno ''NotFound'') | Some v \<Rightarrow> Inr v)"

definition CreateVol :: "env \<Rightarrow> api_Volume \<Rightarrow> world \<Rightarrow> error option \<times> world" where
  "CreateVol e v w =
     (case kvdb_err e w (Id' v) of
        Some err \<Rightarrow> (Some err, w)
      | None \<Rightarrow>
          (case store w (Id' v) of
             Some u \<Rightarrow> (Some (Errno ''KeyExists''), w)
           | None \<Rightarrow> (None, w\<lparr>store := (store w)(Id' v \<mapsto> v)\<rparr>)))"

definition UpdateVol :: "env \<Rightarrow> api_Volume \<Rightarrow> world \<Rightarrow> error option \<times> world" where
  "UpdateVol e v w =
     (case kvdb_err e w (Id' v) of
        Some err \<Rightarrow> (Some err, w)
      | None \<Rightarrow> (None, w\<lparr>store := (store w)(Id' v \<mapsto> v)\<rparr>))"

definition DeleteVol :: "env \<Rightarrow> string \<Rightarrow> world \<Rightarrow> error option \<times> world" where
  "DeleteVol e volumeID w =
     (case kvdb_err e w volumeID of
        Some err \<Rightarrow> (Some err, w)
      | None \<Rightarrow>
          (case store w volumeID of
             None \<Rightarrow> (Some (Errno ''NotFound''), w)
           | Some v \<Rightarrow> (None, w\<lparr>store := (store w)(volumeID := None)\<rparr>)))"

fun Inspect_store :: "string list \<Rightarrow> world \<Rightarrow> api_Volume list \<times> error option" where
  "Inspect_store [] w = ([], None)"
| "Inspect_store (i # ids) w =
     (case store w i of
        None \<Rightarrow> ([], Some (Errno ''NotFound''))
      | Some v \<Rightarrow>
          (case Inspect_store ids w of
             (vs, None) \<Rightarrow> (v # vs, None)
           | (vs, Some err) \<Rightarrow> ([], Some err)))"

text \<open>
  Modelled from the spec: \<open>common.NewVolume\<close> is not among the sources. It builds the
  record of a new volume, which is not mounted and whose device path the caller sets.
\<close>

definition NewVolume ::
  "string \<Rightarrow> FSType \<Rightarrow> api_VolumeLocator \<Rightarrow> api_Source option \<Rightarrow> api_VolumeSpec \<Rightarrow> api_Volume" where
  "NewVolume volumeID fsType locator source spec =
     \<lparr>Id' = volumeID, Locator = locator, Source = source, Spec = spec,
      Status = VOLUME_STATUS_NONE, DevicePath = [], AttachPath = None\<rparr>"

subsection \<open>The driver's operations\<close>

definition BuseMountPath :: string where
  "BuseMountPath = ''/var/lib/openstorage/buse/''"

text \<open>
  \<open>copyFile\<close>. The deferred \<open>Close\<close> calls run on every way out once the file is open.
  After a copy without error the source is stat'ed; \<open>sourceinfo, err := os.Stat(source)\<close>
  declares a new \<open>err\<close> inside the block, so the function's result stays the \<open>nil\<close> of
  \<open>io.Copy\<close>. The \<open>os.Chmod\<close> call sits under \<open>if err != nil\<close>: it is reached only when
  \<open>os.Stat\<close> failed, where \<open>sourceinfo\<close> is \<open>nil\<close> and evaluating the argument
  \<open>sourceinfo.Mode()\<close> panics before \<open>os.Chmod\<close> is entered. When \<open>os.Stat\<close> succeeds the
  call is skipped.
\<close>

definition copyFile :: "env \<Rightarrow> string \<Rightarrow> string \<Rightarrow> world \<Rightarrow> error option go \<times> world" where
  "copyFile e source dest w =
     (case os_Open e source w of
        (Some err, w1) \<Rightarrow> (Returns (Some err), w1)
      | (None, w1) \<Rightarrow>
          (case os_Create e dest w1 of
             (Some err, w2) \<Rightarrow> (Returns (Some err), Close source w2)
           | (None, w2) \<Rightarrow>
               (case io_Copy e dest source w2 of
                  (Some err, w3) \<Rightarrow> (Returns (Some err), Close source (Close dest w3))
                | (None, w3) \<Rightarrow>
                    (case os_Stat e source w3 of
                       Inl err' \<Rightarrow> (Panics, Close source (Close dest w3))
                     | Inr sourceinfo \<Rightarrow> (Returns None, Close source (Close dest w3))))))"

text \<open>
  \<open>Create\<close>. The two \<open>fmt.Errorf\<close> calls pass an argument their format has no verb
  for, which \<open>fmt\<close> appends to the message.
\<close>

definition buse_Create ::
  "env \<Rightarrow> api_VolumeLocator \<Rightarrow> api_Source option \<Rightarrow> api_VolumeSpec \<Rightarrow> world
     \<Rightarrow> (string \<times> error option) \<times> world" where
  "buse_Create e locator source spec w =
     (let volumeID = TrimSuffix (uuid_New e w) [CHR 0x0A] in
      if Size spec = 0 then
        (('''', Some (Errorf ''Volume size cannot be zero%!(EXTRA string=buse)'')), w)
      else if Format spec = FS_TYPE_NONE then
        (('''', Some (Errorf ''Missing volume format%!(EXTRA string=buse)'')), w)
      else
        (let buseFile = path_Join [BuseMountPath, volumeID] in
         case os_Create e buseFile w of
           (Some err, w1) \<Rightarrow> (('''', Some err), w1)
         | (None, w1) \<Rightarrow>
             (case Truncate e buseFile (sint (Size spec)) w1 of
                (Some err, w2) \<Rightarrow> (('''', Some err), w2)
              | (None, w2) \<Rightarrow>
                  (case nbd_Connect e buseFile w2 of
                     (Inl err, w3) \<Rightarrow> (('''', Some err), w3)
                   | (Inr dev, w3) \<Rightarrow>
                       (case mkfs e (''/sbin/mkfs.'' @ SimpleString (Format spec)) dev buseFile w3 of
                          (Some err, w4) \<Rightarrow> (('''', Some err), w4)
                        | (None, w4) \<Rightarrow>
                            (let v = (NewVolume volumeID (Format spec) locator source spec)
                                       \<lparr>DevicePath := dev\<rparr>;
                                 bd = \<lparr>bd_file = buseFile, bd_f = buseFile, bd_nbd = dev\<rparr>;
                                 w5 = w4\<lparr>buseDevices := (buseDevices w4)(dev \<mapsto> bd)\<rparr>
                             in case CreateVol e v w5 of
                                  (Some err, w6) \<Rightarrow> (('''', Some err), w6)
                                | (None, w6) \<Rightarrow> ((Id' v, None), w6)))))))"

text \<open>
  \<open>Delete\<close>. The results of \<open>os.Remove\<close>, \<open>Close\<close> and \<open>Disconnect\<close> are dropped, and the
  entry stays in \<open>buseDevices\<close>.
\<close>

definition buse_Delete :: "env \<Rightarrow> string \<Rightarrow> world \<Rightarrow> error option \<times> world" where
  "buse_Delete e volumeID w =
     (case GetVol volumeID w of
        Inl err \<Rightarrow> (Some err, w)
      | Inr v \<Rightarrow>
          (case buseDevices w (DevicePath v) of
             None \<Rightarrow> (Some (Errorf (''Cannot locate a BUSE device for '' @ DevicePath v)), w)
           | Some bd \<Rightarrow>
               (let w1 = snd (os_Remove e (bd_file bd) w);
                    w2 = Close (bd_f bd) w1;
                    w3 = nbd_Disconnect (bd_nbd bd) w2
                in case DeleteVol e volumeID w3 of
                     (Some err, w4) \<Rightarrow> (Some err, w4)
                   | (None, w4) \<Rightarrow> (None, w4))))"

definition buse_MountedAt :: "string \<Rightarrow> string" where
  "buse_MountedAt mountpath = ''''"

text \<open>
  \<open>Mount\<close>. The already-mounted message has two \<open>%q\<close> verbs and one argument. After the
  kernel mount a \<open>nil\<close> AttachPath is replaced by \<open>make([]string, 1)\<close>; the assignment
  \<open>v.AttachPath[0] = mountpath\<close> is out of range, and panics, on a non-nil slice of
  length 0.
\<close>

definition buse_Mount :: "env \<Rightarrow> string \<Rightarrow> string \<Rightarrow> world \<Rightarrow> error option go \<times> world" where
  "buse_Mount e volumeID mountpath w =
     (case GetVol volumeID w of
        Inl err \<Rightarrow> (Returns (Some (Errorf (''Failed to locate volume '' @ Quote volumeID))), w)
      | Inr v \<Rightarrow>
          (if len (AttachPath v) > 0 \<and> len (AttachPath v) > 0 then
             (Returns (Some (Errorf (''Volume '' @ Quote (hd (the (AttachPath v)))
                                      @ '' already mounted at %!q(MISSING)''))), w)
           else
             (case syscall_Mount e (DevicePath v) mountpath (SimpleString (Format (Spec v))) w of
                (Some err, w1) \<Rightarrow>
                  (Returns (Some (Errorf (''Failed to mount '' @ DevicePath v @ '' at '' @ mountpath
                                           @ '': '' @ Error err))), w1)
              | (None, w1) \<Rightarrow>
                  (case (case AttachPath v of None \<Rightarrow> Some [''''] | Some xs \<Rightarrow> Some xs) of
                     Some (x # xs) \<Rightarrow>
                       (case UpdateVol e (v\<lparr>AttachPath := Some (mountpath # xs)\<rparr>) w1 of
                          (r, w2) \<Rightarrow> (Returns r, w2))
                   | other \<Rightarrow> (Panics, w1)))))"

definition buse_Unmount :: "env \<Rightarrow> string \<Rightarrow> string \<Rightarrow> world \<Rightarrow> error option \<times> world" where
  "buse_Unmount e volumeID mountpath w =
     (case GetVol volumeID w of
        Inl err \<Rightarrow> (Some err, w)
      | Inr v \<Rightarrow>
          (if len (AttachPath v) = 0 \<or> length (hd (the (AttachPath v))) = 0 then
             (Some (Errorf (''Device '' @ volumeID @ '' not mounted'')), w)
           else
             (case syscall_Unmount e (hd (the (AttachPath v))) w of
                (Some err, w1) \<Rightarrow> (Some err, w1)
              | (None, w1) \<Rightarrow> UpdateVol e (v\<lparr>AttachPath := None\<rparr>) w1)))"

text \<open>
  \<open>Snapshot\<close>. Every failure is returned as the empty ID with a \<open>nil\<close> error;
  \<open>vols[0]\<close> is out of range, and panics, when \<open>Inspect\<close> returns no volume and no error.
\<close>

definition buse_Snapshot ::
  "env \<Rightarrow> string \<Rightarrow> bool \<Rightarrow> api_VolumeLocator \<Rightarrow> world \<Rightarrow> (string \<times> error option) go \<times> world" where
  "buse_Snapshot e volumeID readonly locator w =
     (case Inspect_store [volumeID] w of
        (vols, Some err) \<Rightarrow> (Returns ('''', None), w)
      | (vols, None) \<Rightarrow>
          (case vols of
             [] \<Rightarrow> (Panics, w)
           | v0 # vs \<Rightarrow>
               (case buse_Create e locator (Some \<lparr>Parent = volumeID\<rparr>) (Spec v0) w of
                  ((newVolumeID, Some err), w1) \<Rightarrow> (Returns ('''', None), w1)
                | ((newVolumeID, None), w1) \<Rightarrow>
                    (case copyFile e (BuseMountPath @ volumeID) (BuseMountPath @ newVolumeID) w1 of
                       (Panics, w2) \<Rightarrow> (Panics, w2)
                     | (Returns (Some err), w2) \<Rightarrow>
                         (Returns ('''', None), snd (buse_Delete e newVolumeID w2))
                     | (Returns None, w2) \<Rightarrow> (Returns (newVolumeID, None), w2)))))"

definition buse_Attach :: "string \<Rightarrow> string \<times> error option" where
  "buse_Attach volumeID = (path_Join [BuseMountPath, volumeID], None)"

definition buse_Detach :: "string \<Rightarrow> error option" where
  "buse_Detach volumeID = None"

text \<open>
  The telemetry payloads \<open>api.Stats\<close>, \<open>api.Alerts\<close> and \<open>api.ActiveRequests\<close> are
  declared outside the sources; a payload is represented by its JSON rendering, and a
  \<open>nil\<close> pointer by \<open>None\<close>.
\<close>

datatype api_Stats = Stats_json string

datatype api_Alerts = Alerts_json string

datatype api_ActiveRequests = ActiveRequests_json string

definition buse_Stats :: "string \<Rightarrow> bool \<Rightarrow> api_Stats option \<times> error option" where
  "buse_Stats volumeID cumulative = (None, Some ErrNotSupported)"

definition buse_Alerts :: "string \<Rightarrow> api_Alerts option \<times> error option" where
  "buse_Alerts volumeID = (None, Some ErrNotSupported)"

definition buse_GetActiveRequests :: "api_ActiveRequests option \<times> error option" where
  "buse_GetActiveRequests = (None, None)"

subsection \<open>The shape of the stored records\<close>

text \<open>
  Every record the driver writes is stored under its own ID, and its AttachPath is
  either \<open>nil\<close> (as \<open>NewVolume\<close> and \<open>Unmount\<close> leave it) or non-empty (as \<open>Mount\<close>
  leaves it); a non-nil slice of length 0 is never written.
\<close>

definition store_ok :: "world \<Rightarrow> bool" where
  "store_ok w = (\<forall>k v. store w k = Some v \<longrightarrow> Id' v = k \<and> AttachPath v \<noteq> Some [])"

section \<open>The volume driver interface and the driver registry\<close>

text \<open>
  \<open>volume.VolumeDriver\<close>, the interface both servers call. A driver is a record of
  operations over its own state \<open>'s\<close>: the queries read the state, every other
  operation returns the state it leaves. Pointer parameters that callers pass as
  \<open>nil\<close> are options.
\<close>

record 's VolumeDriver =
  Type :: DriverType
  Inspect :: "'s \<Rightarrow> string list \<Rightarrow> api_Volume list \<times> error option"
  Enumerate :: "'s \<Rightarrow> api_VolumeLocator option \<Rightarrow> (string \<times> string) list option
                 \<Rightarrow> api_Volume list \<times> error option"
  SnapEnumerate :: "'s \<Rightarrow> string list option \<Rightarrow> (string \<times> string) list option
                     \<Rightarrow> api_Volume list \<times> error option"
  MountedAt :: "'s \<Rightarrow> string \<Rightarrow> string"
  Create :: "api_VolumeLocator \<Rightarrow> api_Source option \<Rightarrow> api_VolumeSpec \<Rightarrow> 's
               \<Rightarrow> (string \<times> error option) \<times> 's"
  Delete :: "string \<Rightarrow> 's \<Rightarrow> error option \<times> 's"
  Mount :: "string \<Rightarrow> string \<Rightarrow> 's \<Rightarrow> error option \<times> 's"
  Unmount :: "string \<Rightarrow> string \<Rightarrow> 's \<Rightarrow> error option \<times> 's"
  Attach :: "string \<Rightarrow> 's \<Rightarrow> (string \<times> error option) \<times> 's"
  Detach :: "string \<Rightarrow> 's \<Rightarrow> error option \<times> 's"
  Set' :: "string \<Rightarrow> api_VolumeLocator option \<Rightarrow> api_VolumeSpec option \<Rightarrow> 's \<Rightarrow> error option \<times> 's"
  Snapshot :: "string \<Rightarrow> bool \<Rightarrow> api_VolumeLocator \<Rightarrow> 's \<Rightarrow> (string \<times> error option) \<times> 's"
  Stats :: "string \<Rightarrow> bool \<Rightarrow> 's \<Rightarrow> (api_Stats option \<times> error option) \<times> 's"
  Alerts :: "string \<Rightarrow> 's \<Rightarrow> (api_Alerts option \<times> error option) \<times> 's"
  GetActiveRequests :: "'s \<Rightarrow> (api_ActiveRequests option \<times> error option) \<times> 's"

text \<open>
  Modelled from the spec: \<open>volumedrivers.Get\<close> is not among the sources. The Driver
  Registry maps a backend name to the registered driver; a name that is not
  registered is an error.
\<close>

definition volumedrivers_Get :: "(string \<rightharpoonup> 's VolumeDriver) \<Rightarrow> string \<Rightarrow> error + 's VolumeDriver" where
  "volumedrivers_Get reg n =
     (case reg n of None \<Rightarrow> Inl (Errno ''driver not found'') | Some v \<Rightarrow> Inr v)"

section \<open>HTTP responses\<close>

text \<open>
  What a handler sends: a JSON encoding of one of the response shapes of the two
  servers, or plain text. The plugin protocol's shapes come first, the native API's
  second; \<open>VolumeSetResponse\<close> carries an optional volume and an optional embedded
  \<open>VolumeResponse\<close>.
\<close>

datatype payload =
    Text string
  | Json_volumeResponse string
  | Json_volumePathResponse string string
  | Json_VolumeCreateResponse string string
  | Json_VolumeResponse string
  | Json_VolumeSetResponse "api_Volume option" "string option"
  | Json_SnapCreateResponse string string
  | Json_Volumes "api_Volume list"
  | Json_Stats "api_Stats option"
  | Json_Alerts "api_Alerts option"
  | Json_ActiveRequests "api_ActiveRequests option"
  | Json_versions "string list"

text \<open>
  \<open>http.ResponseWriter\<close>: the first status written stands, a body written before any
  status implies 200, and bodies are appended.
\<close>

record ResponseWriter =
  rw_status :: "nat option"
  rw_body :: "payload list"

definition new_rw :: ResponseWriter where
  "new_rw = \<lparr>rw_status = None, rw_body = []\<rparr>"

definition WriteHeader :: "nat \<Rightarrow> ResponseWriter \<Rightarrow> ResponseWriter" where
  "WriteHeader c w = (if rw_status w = None then w\<lparr>rw_status := Some c\<rparr> else w)"

definition Write :: "payload \<Rightarrow> ResponseWriter \<Rightarrow> ResponseWriter" where
  "Write p w = (WriteHeader 200 w)\<lparr>rw_body := rw_body w @ [p]\<rparr>"


definition Encode :: "payload \<Rightarrow> ResponseWriter \<Rightarrow> ResponseWriter" where
  "Encode p w = Write p w"

text \<open>
  Modelled from the spec: \<open>sendError\<close> and \<open>notFound\<close> of \<open>restBase\<close> are not among the
  sources. \<open>sendError\<close> answers with the given status and the message as text,
  \<open>notFound\<close> with 404.
\<close>

definition sendError :: "string \<Rightarrow> nat \<Rightarrow> ResponseWriter \<Rightarrow> ResponseWriter" where
  "sendError msg c w = (WriteHeader c w)\<lparr>rw_body := rw_body w @ [Text msg]\<rparr>"


section \<open>The volume-plugin protocol server (package server, type driver)\<close>

text \<open>
  The server knows its backend by name and looks it up in the registry on every
  request. \<open>SpecFromString\<close> and \<open>SpecFromOpts\<close> belong to the embedded \<open>SpecHandler\<close>,
  whose code is not among the sources; they are parameters. The logging calls and
  the \<open>method\<close> argument that only feeds them are left out.
\<close>

record 's plugin =
  d_name :: string
  drivers :: "string \<rightharpoonup> 's VolumeDriver"
  SpecFromString :: "string \<Rightarrow> bool \<times> api_VolumeSpec \<times> string"
  SpecFromOpts :: "(string \<times> string) list \<Rightarrow> api_VolumeSpec \<times> error option"

record volumeRequest =
  req_Name :: string
  req_Opts :: "(string \<times> string) list"

record mountRequest =
  mreq_Name :: string
  mreq_ID :: string

text \<open>
  Constants of packages \<open>volume\<close> and \<open>config\<close>, declared outside the sources; no result
  below depends on the value.
\<close>

definition MountBase :: string where
  "MountBase = ''/var/lib/osd/mounts/''"

definition emptyResponse :: "ResponseWriter \<Rightarrow> ResponseWriter" where
  "emptyResponse w = Encode (Json_volumeResponse '''') w"

definition errorResponse :: "error \<Rightarrow> ResponseWriter \<Rightarrow> ResponseWriter" where
  "errorResponse err w = Encode (Json_volumeResponse (Error err)) w"

definition volNotFound :: "error \<Rightarrow> error" where
  "volNotFound e = Errorf (''Failed to locate volume: '' @ Error e)"

text \<open>
  \<open>volFromName\<close>: the name resolves when \<open>Inspect\<close> of it as an ID, or else \<open>Enumerate\<close>
  of it as a locator name, returns no error and exactly one volume.
\<close>

definition volFromName :: "'s plugin \<Rightarrow> string \<Rightarrow> 's \<Rightarrow> error + api_Volume" where
  "volFromName d n s =
     (case volumedrivers_Get (drivers d) (d_name d) of
        Inl err \<Rightarrow>
          Inl (Errorf (''Cannot locate volume driver for '' @ d_name d @ '': '' @ Error err))
      | Inr v \<Rightarrow>
          (let (vols, err) = Inspect v s [n] in
           if err = None \<and> length vols = 1 then Inr (vols ! 0)
           else
             (let (vols, err) = Enumerate v s (Some \<lparr>Name = n, VolumeLabels = []\<rparr>) None in
              if err = None \<and> length vols = 1 then Inr (vols ! 0)
              else Inl (Errorf (''Cannot locate volume '' @ n)))))"

text \<open>
  \<open>decode\<close> and \<open>decodeMount\<close>: the body is given as what the JSON decoder makes of it,
  an error or the request. A body that does not decode is answered with status 400.
\<close>

definition decode :: "error + 'r \<Rightarrow> ResponseWriter \<Rightarrow> (error + 'r) \<times> ResponseWriter" where
  "decode body w =
     (case body of
        Inl err \<Rightarrow>
          (let e = Errorf ''Unable to decode JSON payload''
           in (Inl e, sendError (Error e @ '':'' @ Error err) 400 w))
      | Inr request \<Rightarrow> (Inr request, w))"

definition d_mountpath :: "string \<Rightarrow> string" where
  "d_mountpath n = path_Join [MountBase, n]"

text \<open>\<open>create\<close>: the driver's \<open>Create\<close> is called only when the name does not resolve.\<close>

definition plugin_create ::
  "'s plugin \<Rightarrow> error + volumeRequest \<Rightarrow> 's \<Rightarrow> ResponseWriter \<times> 's" where
  "plugin_create d body s =
     (case decode body new_rw of
        (Inl e, w) \<Rightarrow> (w, s)
      | (Inr request, w) \<Rightarrow>
          (case SpecFromString d (req_Name request) of
             (specParsed, spec, n) \<Rightarrow>
               (case volFromName d n s of
                  Inr vol \<Rightarrow> (Encode (Json_volumeResponse '''') w, s)
                | Inl err \<Rightarrow>
                    (case volumedrivers_Get (drivers d) (d_name d) of
                       Inl err1 \<Rightarrow> (errorResponse err1 w, s)
                     | Inr v \<Rightarrow>
                         (case (if \<not> specParsed then SpecFromOpts d (req_Opts request)
                                else (spec, None)) of
                            (spec1, Some err2) \<Rightarrow> (errorResponse err2 w, s)
                          | (spec1, None) \<Rightarrow>
                              (case Create v \<lparr>Name = n, VolumeLabels = []\<rparr> None spec1 s of
                                 ((ident, Some err3), s1) \<Rightarrow> (errorResponse err3 w, s1)
                               | ((ident, None), s1) \<Rightarrow>
                                   (Encode (Json_volumeResponse '''') w, s1)))))))"

text \<open>\<open>%d\<close> of an unsigned integer.\<close>

fun Sprintf_d :: "nat \<Rightarrow> string" where
  "Sprintf_d n =
     (if n < 10 then [''0123456789'' ! n]
      else Sprintf_d (n div 10) @ [''0123456789'' ! (n mod 10)])"

declare Sprintf_d.simps [simp del]

text \<open>
  The body of the loop of \<open>scaleUp\<close> up to the \<open>Attach\<close> call: the derived name of
  replica \<open>i\<close>, and the volume of that name, resolved or else created with the source
  volume's Spec and resolved by the ID \<open>Create\<close> returned. A failure of \<open>Create\<close> or of
  the second lookup ends \<open>scaleUp\<close> with that error.
\<close>

definition replicaName :: "api_Volume \<Rightarrow> 32 word \<Rightarrow> string" where
  "replicaName inVol i = Name (Locator inVol) @ ''_'' @ Sprintf_d (unat i)"

definition replica ::
  "'s plugin \<Rightarrow> 's VolumeDriver \<Rightarrow> api_Volume \<Rightarrow> 32 word \<Rightarrow> 's \<Rightarrow> (error + api_Volume) \<times> 's" where
  "replica d vd inVol i s =
     (let n = replicaName inVol i in
      case volFromName d n s of
        Inr outVol \<Rightarrow> (Inr outVol, s)
      | Inl err \<Rightarrow>
          (case Create vd \<lparr>Name = n, VolumeLabels = []\<rparr> None (Spec inVol) s of
             ((ident, Some err1), s1) \<Rightarrow> (Inl err1, s1)
           | ((ident, None), s1) \<Rightarrow>
               (case volFromName d ident s1 of
                  Inl err2 \<Rightarrow> (Inl err2, s1)
                | Inr outVol \<Rightarrow> (Inr outVol, s1))))"







text \<open>
  \<open>unmount\<close>. For a volume with \<open>Scale > 1\<close> the ID to unmount is what the driver's
  \<open>MountedAt\<close> reports for the mountpoint; an empty answer ends the request.
\<close>

definition plugin_unmount ::
  "'s plugin \<Rightarrow> error + mountRequest \<Rightarrow> 's \<Rightarrow> ResponseWriter \<times> 's" where
  "plugin_unmount d body s =
     (case volumedrivers_Get (drivers d) (d_name d) of
        Inl err \<Rightarrow> (errorResponse err new_rw, s)
      | Inr v \<Rightarrow>
          (case decode body new_rw of
             (Inl e, w) \<Rightarrow> (w, s)
           | (Inr request, w) \<Rightarrow>
               (let n = snd (snd (SpecFromString d (mreq_Name request))) in
                case volFromName d n s of
                  Inl err \<Rightarrow> (errorResponse (volNotFound err) w, s)
                | Inr vol \<Rightarrow>
                    (let mountpoint = d_mountpath n;
                         ident = (if 1 < Scale (Spec vol) then MountedAt v s mountpoint
                                  else Id' vol)
                     in if 1 < Scale (Spec vol) \<and> length ident = 0 then
                          (errorResponse
                             (Errorf (''Failed to find volume mapping for '' @ mountpoint)) w, s)
                        else
                          (case Unmount v ident mountpoint s of
                             (Some err, s1) \<Rightarrow> (errorResponse err w, s1)
                           | (None, s1) \<Rightarrow>
                               (emptyResponse w,
                                (if Type v = DRIVER_TYPE_BLOCK then snd (Detach v ident s1)
                                 else s1)))))))"

subsection \<open>The claim's reading of the scale-up search\<close>


section \<open>The native volume API server (package server, type volApi)\<close>









definition APIVersion :: string where "APIVersion = ''v1''"

datatype VolumeActionParam =
  VOLUME_ACTION_PARAM_NONE | VOLUME_ACTION_PARAM_OFF | VOLUME_ACTION_PARAM_ON




















definition volApi_versions :: "ResponseWriter" where
  "volApi_versions = Encode (Json_versions [APIVersion]) new_rw"

section \<open>Concrete worlds for the worked examples\<close>

text \<open>
  An environment in which every external call succeeds: the next identifier is \<open>v2\<close>,
  a new file gets mode 0644, the next NBD device is \<open>/dev/nbd1\<close> and the formatting tool
  writes the image \<open>1, 2, 3, 4\<close>.
\<close>

definition env_ok :: env where
  "env_ok =
     \<lparr>uuid_New = (\<lambda>w. ''v2''),
      os_Open_err = (\<lambda>w p. None),
      os_Create_err = (\<lambda>w p. None),
      os_Create_perm = 0x1A4,
      Truncate_err = (\<lambda>w p. None),
      io_Copy_err = (\<lambda>w dst src. None),
      os_Stat_err = (\<lambda>w p. None),
      os_Remove_err = (\<lambda>w p. None),
      nbd_Connect_res = (\<lambda>w p. Inr ''/dev/nbd1''),
      mkfs_res = (\<lambda>w cmd dev. Inr [1, 2, 3, 4]),
      syscall_Mount_err = (\<lambda>w src target fstype. None),
      syscall_Unmount_err = (\<lambda>w target. None),
      kvdb_err = (\<lambda>w k. None)\<rparr>"

text \<open>The same environment with a kernel that refuses to mount.\<close>

definition env_mount_fails :: env where
  "env_mount_fails = env_ok\<lparr>syscall_Mount_err := (\<lambda>w src target fstype. Some (Errno ''EBUSY''))\<rparr>"

text \<open>The same environment with a disk that fails during the copy, after two bytes.\<close>

definition env_copy_fails :: env where
  "env_copy_fails = env_ok\<lparr>io_Copy_err := (\<lambda>w dst src. Some (Errno ''EIO'', 2))\<rparr>"

definition spec_ext4 :: api_VolumeSpec where
  "spec_ext4 = \<lparr>Size = 4, Format = FS_TYPE ''ext4'', Scale = 1\<rparr>"

definition locator_db :: api_VolumeLocator where
  "locator_db = \<lparr>Name = ''db'', VolumeLabels = []\<rparr>"

text \<open>
  One volume \<open>v1\<close>, created by the driver and not mounted: its backing file holds four
  bytes and was made private (mode 0600), its handle is open, its NBD device
  \<open>/dev/nbd0\<close> is connected and registered.
\<close>

definition vol_v1 :: api_Volume where
  "vol_v1 =
     \<lparr>Id' = ''v1'', Locator = locator_db, Source = None, Spec = spec_ext4,
      Status = VOLUME_STATUS_UP, DevicePath = ''/dev/nbd0'', AttachPath = None\<rparr>"

definition world_v1 :: world where
  "world_v1 =
     \<lparr>files = [''/var/lib/openstorage/buse/v1'' \<mapsto> \<lparr>content = [9, 9, 9, 9], perm = 0x180\<rparr>],
      handles = [''/var/lib/openstorage/buse/v1''],
      nbds = [''/dev/nbd0''],
      mounts = [],
      store = [''v1'' \<mapsto> vol_v1],
      buseDevices = [''/dev/nbd0'' \<mapsto>
        \<lparr>bd_file = ''/var/lib/openstorage/buse/v1'', bd_f = ''/var/lib/openstorage/buse/v1'',
         bd_nbd = ''/dev/nbd0''\<rparr>]\<rparr>"

text \<open>The same volume mounted at \<open>/mnt/db\<close>.\<close>

definition world_v1_mounted :: world where
  "world_v1_mounted =
     world_v1\<lparr>mounts := [(''/dev/nbd0'', ''/mnt/db'', ''ext4'')],
              store := [''v1'' \<mapsto> vol_v1\<lparr>AttachPath := Some [''/mnt/db'']\<rparr>]\<rparr>"

text \<open>
  The same volume after the driver process was started again: the record and the
  file are there, the Device Registry is empty.
\<close>

definition world_restarted :: world where
  "world_restarted = world_v1\<lparr>handles := [], nbds := [], buseDevices := Map.empty\<rparr>"

text \<open>
  A small in-memory block backend for running the servers on concrete requests. Its
  state is the list of volume records, the IDs that are attached and a counter for
  new IDs. \<open>Attach\<close> reports the scale limit for a volume that is attached already;
  \<open>MountedAt\<close> and the telemetry operations are those of the BUSE driver.
\<close>

record pool =
  vols :: "api_Volume list"
  attached :: "string list"
  serial :: nat

definition pool_driver :: "pool VolumeDriver" where
  "pool_driver =
     \<lparr>Type = DRIVER_TYPE_BLOCK,
      Inspect = (\<lambda>s ids. (filter (\<lambda>v. Id' v \<in> set ids) (vols s), None)),
      Enumerate = (\<lambda>s locator labels.
        (case locator of
           None \<Rightarrow> vols s
         | Some l \<Rightarrow> filter (\<lambda>v. Name (Locator v) = Name l) (vols s), None)),
      SnapEnumerate = (\<lambda>s ids labels. (filter (\<lambda>v. Source v \<noteq> None) (vols s), None)),
      MountedAt = (\<lambda>s mountpath. buse_MountedAt mountpath),
      Create = (\<lambda>locator source spec s.
        ((''id'' @ Sprintf_d (serial s), None),
         s\<lparr>vols := vols s @ [NewVolume (''id'' @ Sprintf_d (serial s)) (Format spec) locator source spec],
           serial := serial s + 1\<rparr>)),
      Delete = (\<lambda>i s.
        (if i \<in> Id' ` set (vols s) then (None, s\<lparr>vols := filter (\<lambda>v. Id' v \<noteq> i) (vols s)\<rparr>)
         else (Some (Errno ''NotFound''), s))),
      Mount = (\<lambda>i mountpath s.
        (None, s\<lparr>vols := map (\<lambda>v. if Id' v = i then v\<lparr>AttachPath := Some [mountpath]\<rparr> else v)
                               (vols s)\<rparr>)),
      Unmount = (\<lambda>i mountpath s.
        (None, s\<lparr>vols := map (\<lambda>v. if Id' v = i then v\<lparr>AttachPath := None\<rparr> else v) (vols s)\<rparr>)),
      Attach = (\<lambda>i s.
        (if i \<in> set (attached s) then (('''', Some ErrVolAttachedScale), s)
         else ((''/dev/'' @ i, None), s\<lparr>attached := i # attached s\<rparr>))),
      Detach = (\<lambda>i s. (None, s\<lparr>attached := removeAll i (attached s)\<rparr>)),
      Set' = (\<lambda>i locator spec s.
        (if spec \<noteq> None then (Some ErrNotSupported, s) else (None, s))),
      Snapshot = (\<lambda>i readonly locator s. (('''', None), s)),
      Stats = (\<lambda>i cumulative s. (buse_Stats i cumulative, s)),
      Alerts = (\<lambda>i s. (buse_Alerts i, s)),
      GetActiveRequests = (\<lambda>s. (buse_GetActiveRequests, s))\<rparr>"

text \<open>
  A plugin server for that backend, registered under the name \<open>pool\<close>; request names
  carry no spec, and the options ask for a scale of 3.
\<close>

definition pool_plugin :: "pool plugin" where
  "pool_plugin =
     \<lparr>d_name = ''pool'',
      drivers = [''pool'' \<mapsto> pool_driver],
      SpecFromString = (\<lambda>str. (False, spec_ext4, str)),
      SpecFromOpts = (\<lambda>opts. (spec_ext4\<lparr>Scale := 3\<rparr>, None))\<rparr>"

definition pool_vol :: "string \<Rightarrow> string \<Rightarrow> api_Volume" where
  "pool_vol i n =
     NewVolume i (FS_TYPE ''ext4'') \<lparr>Name = n, VolumeLabels = []\<rparr> None (spec_ext4\<lparr>Scale := 3\<rparr>)"

text \<open>
  The logical volume \<open>db\<close> of scale 3 with its first replica, both attached; and the
  same with both replicas, all three attached.
\<close>

definition pool_two_busy :: pool where
  "pool_two_busy =
     \<lparr>vols = [pool_vol ''id0'' ''db'', pool_vol ''id1'' ''db_1''],
      attached = [''id0'', ''id1''], serial = 2\<rparr>"

definition pool_all_busy :: pool where
  "pool_all_busy =
     \<lparr>vols = [pool_vol ''id0'' ''db'', pool_vol ''id1'' ''db_1'', pool_vol ''id2'' ''db_2''],
      attached = [''id0'', ''id1'', ''id2''], serial = 3\<rparr>"



section \<open>Properties of the BUSE block driver\<close>

subsection \<open>Telemetry\<close>

text \<open>
  C7, as the spec states it, fails for \<open>GetActiveRequests\<close>: the operation returns a
  \<open>nil\<close> result together with a \<open>nil\<close> error, not the NotSupported error.
\<close>

theorem GetActiveRequests_not_unsupported:
  "snd buse_GetActiveRequests \<noteq> Some ErrNotSupported"
  by (simp add: buse_GetActiveRequests_def)

text \<open>
  C7, amended: for every volume ID and every value of the cumulative flag, \<open>Stats\<close> and
  \<open>Alerts\<close> return a \<open>nil\<close> result together with the NotSupported error, and
  \<open>GetActiveRequests\<close> returns a \<open>nil\<close> result together with a \<open>nil\<close> error.
\<close>

theorem telemetry_results:
  "buse_Stats volumeID cumulative = (None, Some ErrNotSupported)
   \<and> buse_Alerts volumeID = (None, Some ErrNotSupported)
   \<and> buse_GetActiveRequests = (None, None)"
  by (simp add: buse_Stats_def buse_Alerts_def buse_GetActiveRequests_def)

subsection \<open>Delete of a volume whose device is not registered\<close>

text \<open>
  C4: when the record of \<open>volumeID\<close> exists and the Device Registry has no entry for its
  DevicePath, \<open>Delete\<close> returns the device-not-registered error and the world is the one
  it started from, whatever the environment would have answered: no file is removed,
  no handle closed, no NBD device disconnected, and the store is untouched.
\<close>

theorem Delete_device_not_registered:
  assumes "store w volumeID = Some v"
    and "buseDevices w (DevicePath v) = None"
  shows "buse_Delete e volumeID w =
           (Some (Errorf (''Cannot locate a BUSE device for '' @ DevicePath v)), w)"
  using assms by (simp add: buse_Delete_def GetVol_def)

text \<open>C4 at the restarted driver: the record \<open>v1\<close> is there, the registry is empty.\<close>

theorem Delete_device_not_registered_witness:
  "store world_restarted ''v1'' = Some vol_v1
   \<and> buseDevices world_restarted (DevicePath vol_v1) = None
   \<and> buse_Delete env_ok ''v1'' world_restarted =
       (Some (Errorf ''Cannot locate a BUSE device for /dev/nbd0''), world_restarted)"
  using Delete_device_not_registered [of world_restarted "''v1''" vol_v1 env_ok]
  by (simp add: world_restarted_def world_v1_def vol_v1_def)

subsection \<open>Create with an invalid spec\<close>

text \<open>
  C5: when the size is zero or the format is \<open>FS_TYPE_NONE\<close>, \<open>Create\<close> returns the empty
  ID with the matching invalid-spec error, and the world is the one it started from,
  whatever the environment would have answered: no backing file, no device, no
  registry entry and no record. Both checks come before the first provisioning step.
\<close>

theorem Create_invalid_spec:
  assumes "Size spec = 0 \<or> Format spec = FS_TYPE_NONE"
  shows "buse_Create e locator source spec w =
           (('''', Some (Errorf (if Size spec = 0
                                then ''Volume size cannot be zero%!(EXTRA string=buse)''
                                else ''Missing volume format%!(EXTRA string=buse)''))), w)"
  using assms by (auto simp add: buse_Create_def Let_def)

text \<open>C5 at a spec of size zero, and at a spec without a format.\<close>

theorem Create_invalid_spec_witness:
  "Size (spec_ext4\<lparr>Size := 0\<rparr>) = 0
   \<and> buse_Create env_ok locator_db None (spec_ext4\<lparr>Size := 0\<rparr>) world_v1 =
       (('''', Some (Errorf ''Volume size cannot be zero%!(EXTRA string=buse)'')), world_v1)
   \<and> Format (spec_ext4\<lparr>Format := FS_TYPE_NONE\<rparr>) = FS_TYPE_NONE
   \<and> buse_Create env_ok locator_db None (spec_ext4\<lparr>Format := FS_TYPE_NONE\<rparr>) world_v1 =
       (('''', Some (Errorf ''Missing volume format%!(EXTRA string=buse)'')), world_v1)"
  using Create_invalid_spec [of "spec_ext4\<lparr>Size := 0\<rparr>" env_ok locator_db None world_v1]
    Create_invalid_spec [of "spec_ext4\<lparr>Format := FS_TYPE_NONE\<rparr>" env_ok locator_db None world_v1]
  by (simp add: spec_ext4_def)

subsection \<open>Frame and invariant lemmas\<close>

lemmas eval_defs =
  buse_Create_def TrimSuffix_def Let_def BuseMountPath_def path_Join_def path_Clean_def
  clean_step_def os_Create_def Truncate_def nbd_Connect_def mkfs_def CreateVol_def
  NewVolume_def copyFile_def os_Open_def io_Copy_def os_Stat_def Close_def buse_Delete_def
  GetVol_def os_Remove_def nbd_Disconnect_def DeleteVol_def

lemma len_0_iff: "len ap = 0 \<longleftrightarrow> ap = None \<or> ap = Some []"
  by (cases ap) auto

text \<open>\<open>copyFile\<close> touches files and handles only.\<close>

lemma copyFile_frame:
  assumes "copyFile e source dest w = (r, w')"
  shows "store w' = store w \<and> buseDevices w' = buseDevices w \<and> nbds w' = nbds w
         \<and> mounts w' = mounts w"
  using assms
  by (auto simp add: copyFile_def os_Open_def os_Create_def io_Copy_def Close_def Let_def
      split: option.splits sum.splits prod.splits)

text \<open>A successful \<open>Create\<close> leaves the record and the registry entry of the new volume.\<close>

lemma Create_registers:
  assumes "buse_Create e locator source spec w = ((newVolumeID, None), w1)"
  shows "\<exists>dev. store w1 newVolumeID =
             Some ((NewVolume newVolumeID (Format spec) locator source spec)\<lparr>DevicePath := dev\<rparr>)
           \<and> buseDevices w1 dev =
             Some \<lparr>bd_file = path_Join [BuseMountPath, newVolumeID],
                   bd_f = path_Join [BuseMountPath, newVolumeID], bd_nbd = dev\<rparr>"
  using assms
  by (auto simp add: buse_Create_def Let_def os_Create_def Truncate_def nbd_Connect_def mkfs_def
      CreateVol_def NewVolume_def split: option.splits sum.splits prod.splits if_splits)

text \<open>Every operation of the driver keeps the shape of the stored records.\<close>

lemma store_ok_Create: "store_ok w \<Longrightarrow> store_ok (snd (buse_Create e locator source spec w))"
  by (auto simp add: store_ok_def buse_Create_def Let_def os_Create_def Truncate_def
      nbd_Connect_def mkfs_def CreateVol_def NewVolume_def
      split: option.splits sum.splits prod.splits if_splits)

lemma store_ok_Mount: "store_ok w \<Longrightarrow> store_ok (snd (buse_Mount e volumeID mountpath w))"
  by (auto simp add: store_ok_def buse_Mount_def GetVol_def syscall_Mount_def UpdateVol_def
      split: option.splits sum.splits prod.splits if_splits list.splits)

lemma store_ok_Unmount: "store_ok w \<Longrightarrow> store_ok (snd (buse_Unmount e volumeID mountpath w))"
  by (auto simp add: store_ok_def buse_Unmount_def GetVol_def syscall_Unmount_def UpdateVol_def
      split: option.splits sum.splits prod.splits if_splits list.splits)

lemma store_ok_Delete: "store_ok w \<Longrightarrow> store_ok (snd (buse_Delete e volumeID w))"
  by (auto simp add: store_ok_def buse_Delete_def GetVol_def os_Remove_def Close_def
      nbd_Disconnect_def DeleteVol_def Let_def split: option.splits sum.splits prod.splits if_splits)

lemma store_ok_copyFile: "store_ok w \<Longrightarrow> store_ok (snd (copyFile e s d w))"
  using copyFile_frame [of e s d w "fst (copyFile e s d w)" "snd (copyFile e s d w)"]
  by (simp add: store_ok_def)

lemma store_ok_Snapshot:
  assumes "store_ok w"
  shows "store_ok (snd (buse_Snapshot e volumeID readonly locator w))"
proof -
  have c: "store_ok w1" if "buse_Create e locator src spec w = (r, w1)" for src spec r w1
    using store_ok_Create [OF assms, of e locator src spec] that by simp
  have k: "store_ok w2" if "store_ok w1" and "copyFile e s d w1 = (r, w2)" for s d r w1 w2
    using store_ok_copyFile [of w1 e s d] that by simp
  show ?thesis
    using assms
    by (auto simp add: buse_Snapshot_def split: prod.splits option.splits list.splits go.splits
        intro: store_ok_Delete dest: c k)
qed

lemma store_ok_world_v1: "store_ok world_v1"
  by (simp add: store_ok_def world_v1_def vol_v1_def)

subsection \<open>The AttachPath state machine\<close>

text \<open>
  C2: for a record \<open>v\<close> stored under \<open>volumeID\<close> in the shape the driver writes (its own
  ID, AttachPath \<open>nil\<close> or non-empty):
  \<^item> \<open>Mount\<close> on an empty AttachPath, when the kernel mounts the device and the store
    takes the write, returns no error, adds the mount and persists the record with
    AttachPath set to the single entry \<open>[mountpath]\<close>;
  \<^item> \<open>Mount\<close> on a non-empty AttachPath returns the already-mounted error and leaves
    the world, and with it AttachPath, unchanged;
  \<^item> \<open>Unmount\<close> on an empty AttachPath returns the not-mounted error and leaves the
    world unchanged;
  \<^item> \<open>Unmount\<close> on a mounted volume, when the kernel unmounts the recorded path and the
    store takes the write, returns no error, removes the mount and persists the
    record with AttachPath cleared to \<open>nil\<close>.
\<close>

theorem AttachPath_state_machine:
  assumes "store w volumeID = Some v"
    and "Id' v = volumeID"
    and "AttachPath v \<noteq> Some []"
  shows
    "(len (AttachPath v) = 0
        \<and> syscall_Mount_err e w (DevicePath v) mountpath (SimpleString (Format (Spec v))) = None
        \<and> kvdb_err e (w\<lparr>mounts := (DevicePath v, mountpath, SimpleString (Format (Spec v))) # mounts w\<rparr>)
             volumeID = None
      \<longrightarrow> buse_Mount e volumeID mountpath w =
            (Returns None,
             w\<lparr>mounts := (DevicePath v, mountpath, SimpleString (Format (Spec v))) # mounts w,
               store := (store w)(volumeID \<mapsto> v\<lparr>AttachPath := Some [mountpath]\<rparr>)\<rparr>))
   \<and> (0 < len (AttachPath v)
      \<longrightarrow> buse_Mount e volumeID mountpath w =
            (Returns (Some (Errorf (''Volume '' @ Quote (hd (the (AttachPath v)))
                                     @ '' already mounted at %!q(MISSING)''))), w))
   \<and> (len (AttachPath v) = 0
      \<longrightarrow> buse_Unmount e volumeID mountpath w =
            (Some (Errorf (''Device '' @ volumeID @ '' not mounted'')), w))
   \<and> (0 < len (AttachPath v) \<and> hd (the (AttachPath v)) \<noteq> []
        \<and> syscall_Unmount_err e w (hd (the (AttachPath v))) = None
        \<and> kvdb_err e (w\<lparr>mounts := unmount_at (hd (the (AttachPath v))) (mounts w)\<rparr>) volumeID = None
      \<longrightarrow> buse_Unmount e volumeID mountpath w =
            (None,
             w\<lparr>mounts := unmount_at (hd (the (AttachPath v))) (mounts w),
               store := (store w)(volumeID \<mapsto> v\<lparr>AttachPath := None\<rparr>)\<rparr>))"
proof (intro conjI impI)
  assume a: "len (AttachPath v) = 0
        \<and> syscall_Mount_err e w (DevicePath v) mountpath (SimpleString (Format (Spec v))) = None
        \<and> kvdb_err e (w\<lparr>mounts := (DevicePath v, mountpath, SimpleString (Format (Spec v))) # mounts w\<rparr>)
             volumeID = None"
  with assms have n: "AttachPath v = None"
    by (simp add: len_0_iff)
  show "buse_Mount e volumeID mountpath w =
            (Returns None,
             w\<lparr>mounts := (DevicePath v, mountpath, SimpleString (Format (Spec v))) # mounts w,
               store := (store w)(volumeID \<mapsto> v\<lparr>AttachPath := Some [mountpath]\<rparr>)\<rparr>)"
    using assms a n by (simp add: buse_Mount_def GetVol_def syscall_Mount_def UpdateVol_def)
next
  assume "0 < len (AttachPath v)"
  then show "buse_Mount e volumeID mountpath w =
            (Returns (Some (Errorf (''Volume '' @ Quote (hd (the (AttachPath v)))
                                     @ '' already mounted at %!q(MISSING)''))), w)"
    using assms by (simp add: buse_Mount_def GetVol_def)
next
  assume "len (AttachPath v) = 0"
  then show "buse_Unmount e volumeID mountpath w =
            (Some (Errorf (''Device '' @ volumeID @ '' not mounted'')), w)"
    using assms by (simp add: buse_Unmount_def GetVol_def)
next
  assume a: "0 < len (AttachPath v) \<and> hd (the (AttachPath v)) \<noteq> []
        \<and> syscall_Unmount_err e w (hd (the (AttachPath v))) = None
        \<and> kvdb_err e (w\<lparr>mounts := unmount_at (hd (the (AttachPath v))) (mounts w)\<rparr>) volumeID = None"
  then show "buse_Unmount e volumeID mountpath w =
            (None,
             w\<lparr>mounts := unmount_at (hd (the (AttachPath v))) (mounts w),
               store := (store w)(volumeID \<mapsto> v\<lparr>AttachPath := None\<rparr>)\<rparr>)"
    using assms by (simp add: buse_Unmount_def GetVol_def syscall_Unmount_def UpdateVol_def)
qed

text \<open>
  C2 on the volume \<open>v1\<close>: mounting the unmounted volume gives the mounted world, a
  second mount and an unmount of the unmounted volume are refused without a change,
  and unmounting the mounted volume gives the unmounted world back.
\<close>

theorem AttachPath_state_machine_witness:
  "store world_v1 ''v1'' = Some vol_v1 \<and> Id' vol_v1 = ''v1'' \<and> len (AttachPath vol_v1) = 0
   \<and> buse_Mount env_ok ''v1'' ''/mnt/db'' world_v1 = (Returns None, world_v1_mounted)
   \<and> buse_Unmount env_ok ''v1'' ''/mnt/db'' world_v1 =
       (Some (Errorf ''Device v1 not mounted''), world_v1)
   \<and> store world_v1_mounted ''v1'' = Some (vol_v1\<lparr>AttachPath := Some [''/mnt/db'']\<rparr>)
   \<and> buse_Mount env_ok ''v1'' ''/mnt/other'' world_v1_mounted =
       (Returns (Some (Errorf (''Volume '' @ Quote ''/mnt/db'' @ '' already mounted at %!q(MISSING)''))),
        world_v1_mounted)
   \<and> buse_Unmount env_ok ''v1'' ''/mnt/db'' world_v1_mounted = (None, world_v1)"
proof -
  let ?v = "vol_v1\<lparr>AttachPath := Some [''/mnt/db'']\<rparr>"
  have s1: "store world_v1 ''v1'' = Some vol_v1"
    by (simp add: world_v1_def)
  have i1: "Id' vol_v1 = ''v1''" and a1: "AttachPath vol_v1 = None"
    by (simp_all add: vol_v1_def)
  have s2: "store world_v1_mounted ''v1'' = Some ?v"
    by (simp add: world_v1_mounted_def)
  have i2: "Id' ?v = ''v1''"
    by (simp add: vol_v1_def)
  have fresh: "buse_Mount env_ok ''v1'' ''/mnt/db'' world_v1 = (Returns None, world_v1_mounted)"
    using AttachPath_state_machine [of world_v1 "''v1''" vol_v1 env_ok "''/mnt/db''"] s1 i1 a1
    by (simp add: world_v1_mounted_def) (simp add: vol_v1_def world_v1_def env_ok_def spec_ext4_def)
  have idle: "buse_Unmount env_ok ''v1'' ''/mnt/db'' world_v1 =
       (Some (Errorf ''Device v1 not mounted''), world_v1)"
    using AttachPath_state_machine [of world_v1 "''v1''" vol_v1 env_ok "''/mnt/db''"] s1 i1 a1
    by simp
  have again: "buse_Mount env_ok ''v1'' ''/mnt/other'' world_v1_mounted =
       (Returns (Some (Errorf (''Volume '' @ Quote ''/mnt/db'' @ '' already mounted at %!q(MISSING)''))),
        world_v1_mounted)"
    using AttachPath_state_machine [of world_v1_mounted "''v1''" ?v env_ok "''/mnt/other''"] s2 i2
    by simp
  have unm: "buse_Unmount env_ok ''v1'' ''/mnt/db'' world_v1_mounted = (None, world_v1)"
    using AttachPath_state_machine [of world_v1_mounted "''v1''" ?v env_ok "''/mnt/db''"] s2 i2
    by (simp add: env_ok_def) (simp add: world_v1_mounted_def world_v1_def vol_v1_def)
  from s1 i1 a1 s2 fresh idle again unm show ?thesis
    by simp
qed

subsection \<open>Snapshot when the copy fails\<close>

text \<open>
  C3: when \<open>Inspect\<close> finds the source, \<open>Create\<close> returned the new volume \<open>newVolumeID\<close>
  and \<open>copyFile\<close> then returns an error, \<open>Snapshot\<close> returns the empty ID with a \<open>nil\<close>
  error, and the world it leaves is the one a single \<open>Delete\<close> of the new volume
  leaves after the failed copy. That \<open>Delete\<close> finds the record and the registry entry
  \<open>Create\<close> left, so it is the full cleanup (remove the backing file, close the
  handle, disconnect the device, delete the record), and when it reports no error the
  record of the new volume is gone.
\<close>

theorem Snapshot_copy_failure:
  assumes "Inspect_store [volumeID] w = (v0 # vs, None)"
    and "buse_Create e locator (Some \<lparr>Parent = volumeID\<rparr>) (Spec v0) w = ((newVolumeID, None), w1)"
    and "copyFile e (BuseMountPath @ volumeID) (BuseMountPath @ newVolumeID) w1
           = (Returns (Some err), w2)"
  shows "buse_Snapshot e volumeID readonly locator w =
           (Returns ('''', None), snd (buse_Delete e newVolumeID w2))
       \<and> (\<exists>dev. buse_Delete e newVolumeID w2 =
             DeleteVol e newVolumeID
               (nbd_Disconnect dev
                 (Close (path_Join [BuseMountPath, newVolumeID])
                   (snd (os_Remove e (path_Join [BuseMountPath, newVolumeID]) w2)))))
       \<and> (fst (buse_Delete e newVolumeID w2) = None
            \<longrightarrow> store (snd (buse_Delete e newVolumeID w2)) newVolumeID = None)"
proof (intro conjI)
  show "buse_Snapshot e volumeID readonly locator w =
           (Returns ('''', None), snd (buse_Delete e newVolumeID w2))"
    using assms by (simp add: buse_Snapshot_def)
next
  from Create_registers [OF assms(2)] obtain dev where
    r: "store w1 newVolumeID =
          Some ((NewVolume newVolumeID (Format (Spec v0)) locator (Some \<lparr>Parent = volumeID\<rparr>) (Spec v0))
                 \<lparr>DevicePath := dev\<rparr>)"
    and d: "buseDevices w1 dev =
             Some \<lparr>bd_file = path_Join [BuseMountPath, newVolumeID],
                   bd_f = path_Join [BuseMountPath, newVolumeID], bd_nbd = dev\<rparr>"
    by blast
  from copyFile_frame [OF assms(3)] have f: "store w2 = store w1" "buseDevices w2 = buseDevices w1"
    by simp_all
  have "buse_Delete e newVolumeID w2 =
             DeleteVol e newVolumeID
               (nbd_Disconnect dev
                 (Close (path_Join [BuseMountPath, newVolumeID])
                   (snd (os_Remove e (path_Join [BuseMountPath, newVolumeID]) w2))))"
    using r d f by (simp add: buse_Delete_def GetVol_def NewVolume_def split: prod.splits option.splits)
  then show "\<exists>dev. buse_Delete e newVolumeID w2 =
             DeleteVol e newVolumeID
               (nbd_Disconnect dev
                 (Close (path_Join [BuseMountPath, newVolumeID])
                   (snd (os_Remove e (path_Join [BuseMountPath, newVolumeID]) w2))))"
    by blast
next
  show "fst (buse_Delete e newVolumeID w2) = None
            \<longrightarrow> store (snd (buse_Delete e newVolumeID w2)) newVolumeID = None"
    by (auto simp add: buse_Delete_def GetVol_def DeleteVol_def Let_def
        split: option.splits prod.splits sum.splits)
qed

text \<open>
  C3 on the volume \<open>v1\<close> with a disk that fails during the copy: the new volume \<open>v2\<close> is
  created, the copy fails, and \<open>Snapshot\<close> returns the empty ID and no error in a world
  that holds neither the record nor the backing file of \<open>v2\<close>.
\<close>

theorem Snapshot_copy_failure_witness:
  "Inspect_store [''v1''] world_v1 = ([vol_v1], None)
   \<and> fst (buse_Create env_copy_fails locator_db (Some \<lparr>Parent = ''v1''\<rparr>) (Spec vol_v1) world_v1)
       = (''v2'', None)
   \<and> fst (copyFile env_copy_fails (BuseMountPath @ ''v1'') (BuseMountPath @ ''v2'')
            (snd (buse_Create env_copy_fails locator_db (Some \<lparr>Parent = ''v1''\<rparr>) (Spec vol_v1) world_v1)))
       = Returns (Some (Errno ''EIO''))
   \<and> fst (buse_Snapshot env_copy_fails ''v1'' False locator_db world_v1) = Returns ('''', None)
   \<and> store (snd (buse_Snapshot env_copy_fails ''v1'' False locator_db world_v1)) ''v2'' = None
   \<and> files (snd (buse_Snapshot env_copy_fails ''v1'' False locator_db world_v1))
        ''/var/lib/openstorage/buse/v2'' = None"
proof -
  let ?c = "buse_Create env_copy_fails locator_db (Some \<lparr>Parent = ''v1''\<rparr>) (Spec vol_v1) world_v1"
  let ?k = "copyFile env_copy_fails (BuseMountPath @ ''v1'') (BuseMountPath @ ''v2'') (snd ?c)"
  have i: "Inspect_store [''v1''] world_v1 = ([vol_v1], None)"
    by (simp add: world_v1_def)
  have c: "fst ?c = (''v2'', None)"
    by (simp add: world_v1_def vol_v1_def spec_ext4_def env_copy_fails_def env_ok_def eval_defs)
  have k: "fst ?k = Returns (Some (Errno ''EIO''))"
    by (simp add: world_v1_def vol_v1_def spec_ext4_def env_copy_fails_def env_ok_def eval_defs)
  have c': "?c = ((''v2'', None), snd ?c)"
    using c by (metis prod.collapse)
  have k': "?k = (Returns (Some (Errno ''EIO'')), snd ?k)"
    using k by (metis prod.collapse)
  note T = Snapshot_copy_failure [OF i c' k', of False]
  have s: "buse_Snapshot env_copy_fails ''v1'' False locator_db world_v1 =
           (Returns ('''', None), snd (buse_Delete env_copy_fails ''v2'' (snd ?k)))"
    using T by blast
  have d1: "store (snd (buse_Delete env_copy_fails ''v2'' (snd ?k))) ''v2'' = None"
    by (simp add: world_v1_def vol_v1_def spec_ext4_def env_copy_fails_def env_ok_def eval_defs)
  have d2: "files (snd (buse_Delete env_copy_fails ''v2'' (snd ?k))) ''/var/lib/openstorage/buse/v2'' = None"
    by (simp add: world_v1_def vol_v1_def spec_ext4_def env_copy_fails_def env_ok_def eval_defs)
  from i c k s d1 d2 show ?thesis
    by simp
qed

subsection \<open>The permission bits of a snapshot copy\<close>

text \<open>
  Whenever \<open>copyFile\<close> returns without error onto a destination that exists, the
  destination keeps the permission bits it had: no path through \<open>copyFile\<close> that
  returns changes a mode.
\<close>

lemma copyFile_keeps_destination_mode:
  assumes "copyFile e source dest w = (Returns None, w')"
    and "files w dest = Some d"
  shows "\<exists>d'. files w' dest = Some d' \<and> perm d' = perm d"
  using assms
  by (auto simp add: copyFile_def os_Open_def os_Create_def io_Copy_def os_Stat_def Close_def Let_def
      split: option.splits sum.splits prod.splits if_splits)

text \<open>When the source cannot be stat'ed after the copy, \<open>copyFile\<close> panics.\<close>

lemma copyFile_stat_failure_panics:
  "fst (copyFile (env_ok\<lparr>os_Stat_err := (\<lambda>w p. Some (Errno ''EACCES''))\<rparr>)
         ''/var/lib/openstorage/buse/v1'' ''/var/lib/openstorage/buse/v9'' world_v1) = Panics"
  by (simp add: world_v1_def env_ok_def eval_defs)

text \<open>
  C8 at a successful \<open>Snapshot\<close> of \<open>v1\<close>, whose backing file has mode 0600 while new
  files get mode 0644: the snapshot \<open>v2\<close> is returned, its backing file holds every byte
  of the source, and its mode is the 0644 it was created with, not the source's 0600.
\<close>

theorem Snapshot_copy_keeps_creation_mode:
  "fst (buse_Snapshot env_ok ''v1'' False locator_db world_v1) = Returns (''v2'', None)
   \<and> files world_v1 ''/var/lib/openstorage/buse/v1'' = Some \<lparr>content = [9, 9, 9, 9], perm = 0x180\<rparr>
   \<and> files (snd (buse_Snapshot env_ok ''v1'' False locator_db world_v1)) ''/var/lib/openstorage/buse/v2''
       = Some \<lparr>content = [9, 9, 9, 9], perm = 0x1A4\<rparr>"
  by (simp add: buse_Snapshot_def world_v1_def vol_v1_def spec_ext4_def env_ok_def eval_defs)

section \<open>Properties of the volume-plugin protocol server\<close>

subsection \<open>The scale-up search\<close>





text \<open>
  C1 on the in-memory backend, for the logical volume \<open>db\<close> of scale 3. With \<open>db\<close> and
  \<open>db_1\<close> attached, a mount of \<open>db\<close> finds \<open>Attach\<close> failing on \<open>db_1\<close>, creates \<open>db_2\<close>,
  attaches it and mounts it at the mountpoint of \<open>db\<close>. With all three attached the
  mount fails with the scale error and the state is unchanged.
\<close>

lemmas pool_defs =
  pool_plugin_def pool_driver_def pool_two_busy_def pool_all_busy_def pool_vol_def NewVolume_def
  spec_ext4_def volFromName_def volumedrivers_Get_def replica_def replicaName_def
  Sprintf_d.simps Let_def


subsection \<open>Unmount of a scaled volume on the BUSE driver\<close>

text \<open>
  C9: the BUSE driver's \<open>MountedAt\<close> returns the empty string for every mountpath.
  Hence, for a server whose backend answers \<open>MountedAt\<close> as the BUSE driver does, an
  Unmount request whose name resolves to a volume with \<open>Spec.Scale > 1\<close> is answered
  with the error \<open>Failed to find volume mapping for <mountpoint>\<close>, and the driver's
  state is the one before the request, whatever the backend's \<open>Unmount\<close> and \<open>Detach\<close>
  would do: neither is called.
\<close>

theorem Unmount_scaled_volume_fails:
  assumes "drivers d (d_name d) = Some v"
    and "MountedAt v = (\<lambda>s mountpath. buse_MountedAt mountpath)"
    and "volFromName d (snd (snd (SpecFromString d (mreq_Name request)))) s = Inr vol"
    and "1 < Scale (Spec vol)"
  shows "(\<forall>mountpath. buse_MountedAt mountpath = '''')
       \<and> plugin_unmount d (Inr request) s =
           (errorResponse
              (Errorf (''Failed to find volume mapping for ''
                         @ d_mountpath (snd (snd (SpecFromString d (mreq_Name request)))))) new_rw,
            s)"
  using assms
  by (simp add: buse_MountedAt_def plugin_unmount_def volumedrivers_Get_def decode_def Let_def)

text \<open>
  C9 on the in-memory backend, whose \<open>MountedAt\<close> is the BUSE driver's: the unmount of
  the scaled volume \<open>db\<close> is refused and nothing changes.
\<close>

theorem Unmount_scaled_volume_fails_witness:
  "drivers pool_plugin (d_name pool_plugin) = Some pool_driver
   \<and> MountedAt pool_driver = (\<lambda>s mountpath. buse_MountedAt mountpath)
   \<and> volFromName pool_plugin ''db'' pool_all_busy = Inr (pool_vol ''id0'' ''db'')
   \<and> 1 < Scale (Spec (pool_vol ''id0'' ''db''))
   \<and> plugin_unmount pool_plugin (Inr \<lparr>mreq_Name = ''db'', mreq_ID = ''c1''\<rparr>) pool_all_busy
       = (\<lparr>rw_status = Some 200,
           rw_body = [Json_volumeResponse ''Failed to find volume mapping for /var/lib/osd/mounts/db'']\<rparr>,
          pool_all_busy)"
proof -
  let ?r = "\<lparr>mreq_Name = ''db'', mreq_ID = ''c1''\<rparr>"
  have n: "snd (snd (SpecFromString pool_plugin (mreq_Name ?r))) = ''db''"
    by (simp add: pool_plugin_def)
  have h1: "drivers pool_plugin (d_name pool_plugin) = Some pool_driver"
    by (simp add: pool_plugin_def)
  have h2: "MountedAt pool_driver = (\<lambda>s mountpath. buse_MountedAt mountpath)"
    by (simp add: pool_driver_def)
  have h3: "volFromName pool_plugin ''db'' pool_all_busy = Inr (pool_vol ''id0'' ''db'')"
    by (simp add: pool_defs)
  have h4: "1 < Scale (Spec (pool_vol ''id0'' ''db''))"
    by (simp add: pool_defs)
  have p: "d_mountpath ''db'' = ''/var/lib/osd/mounts/db''"
    by (simp add: d_mountpath_def MountBase_def path_Join_def path_Clean_def clean_step_def)
  from Unmount_scaled_volume_fails [of pool_plugin pool_driver ?r pool_all_busy "pool_vol ''id0'' ''db''",
      unfolded n, OF h1 h2 h3 h4] h1 h2 h3 h4
  show ?thesis
    by (simp add: p errorResponse_def Encode_def Write_def WriteHeader_def new_rw_def)
qed

subsection \<open>Create of a name that resolves\<close>

text \<open>\<open>volFromName\<close> does not depend on the backend's \<open>Create\<close>.\<close>

lemma volFromName_Create_irrelevant:
  assumes "drivers d (d_name d) = Some v"
  shows "volFromName (d\<lparr>drivers := (drivers d)(d_name d \<mapsto> v\<lparr>Create := f\<rparr>)\<rparr>) n s
           = volFromName d n s"
  using assms by (simp add: volFromName_def volumedrivers_Get_def Let_def split: prod.splits)

text \<open>
  C10: when the name parsed from a Create request resolves to a volume, the handler
  answers with an empty \<open>Err\<close> and leaves the driver's state as it was. The answer is
  the same whatever function stands for the backend's \<open>Create\<close>, so \<open>Create\<close> is not
  called; and sending the request a second time gives what sending it once gives.
\<close>

theorem create_existing_name:
  assumes "volFromName d (snd (snd (SpecFromString d (req_Name request)))) s = Inr vol"
  shows "plugin_create d (Inr request) s = (Encode (Json_volumeResponse '''') new_rw, s)
       \<and> (\<forall>v f. drivers d (d_name d) = Some v \<longrightarrow>
             plugin_create (d\<lparr>drivers := (drivers d)(d_name d \<mapsto> v\<lparr>Create := f\<rparr>)\<rparr>)
                 (Inr request) s
               = (Encode (Json_volumeResponse '''') new_rw, s))
       \<and> plugin_create d (Inr request) (snd (plugin_create d (Inr request) s))
           = plugin_create d (Inr request) s"
proof -
  have once: "plugin_create d (Inr request) s = (Encode (Json_volumeResponse '''') new_rw, s)"
    using assms
    by (cases "SpecFromString d (req_Name request)") (simp add: plugin_create_def decode_def)
  have any: "plugin_create (d\<lparr>drivers := (drivers d)(d_name d \<mapsto> v\<lparr>Create := f\<rparr>)\<rparr>) (Inr request) s
               = (Encode (Json_volumeResponse '''') new_rw, s)"
    if "drivers d (d_name d) = Some v" for v f
    using assms volFromName_Create_irrelevant [OF that, of f]
    by (cases "SpecFromString d (req_Name request)") (simp add: plugin_create_def decode_def)
  from once any show ?thesis
    by simp
qed

text \<open>
  C10 on the in-memory backend: a Create request for the existing name \<open>db\<close> is
  answered with an empty \<open>Err\<close> and no new volume.
\<close>

theorem create_existing_name_witness:
  "volFromName pool_plugin ''db'' pool_all_busy = Inr (pool_vol ''id0'' ''db'')
   \<and> plugin_create pool_plugin (Inr \<lparr>req_Name = ''db'', req_Opts = []\<rparr>) pool_all_busy
       = (\<lparr>rw_status = Some 200, rw_body = [Json_volumeResponse '''']\<rparr>, pool_all_busy)"
proof -
  have n: "snd (snd (SpecFromString pool_plugin (req_Name \<lparr>req_Name = ''db'', req_Opts = []\<rparr>))) = ''db''"
    by (simp add: pool_plugin_def)
  have h: "volFromName pool_plugin ''db'' pool_all_busy = Inr (pool_vol ''id0'' ''db'')"
    by (simp add: pool_defs)
  from create_existing_name [of pool_plugin "\<lparr>req_Name = ''db'', req_Opts = []\<rparr>" pool_all_busy,
      unfolded n, OF h] h
  show ?thesis
    by (simp add: Encode_def Write_def WriteHeader_def new_rw_def)
qed

section \<open>Properties of the native volume API server\<close>






end
